theory Spec2Isabelle
  imports Complex_Main "HOL-Library.AList" "HOL-Library.Char_ord" "HOL-Library.List_Lexorder"
begin

section \<open>Fisheries ledger chaincode: data model\<close>

text \<open>
  The repository holds two variants of one Hyperledger Fabric contract: the current
  chaincode (the file with the test suite beside it, private-data variant) and
  \<^verbatim>\<open>chaincode-backup/bigdatacc/bigdatacc.go\<close>. Functions of the current chaincode keep
  their Go names; functions of the backup variant carry the suffix \<open>_backup\<close>. The asset
  utilities and \<open>GetCatch\<close> exist in the backup variant only.

  Go strings are byte strings: \<^typ>\<open>string\<close> with the byte order of \<open>Char_ord\<close> and the
  lexicographic order of \<open>List_Lexorder\<close>, which is Go's \<^verbatim>\<open><=\<close> on strings.
\<close>

subsection \<open>float64 and the JSON documents of encoding/json\<close>

text \<open>
  A \<^verbatim>\<open>float64\<close> is a finite value, an infinity or NaN. Finite values are kept exact
  (a rational); rounding of a literal to the nearest binary64 value is not modelled.
\<close>

datatype float64 = Finite rat | PosInf | NegInf | NaN

text \<open>
  A stored payload (\<^verbatim>\<open>[]byte\<close>) is represented by the JSON document it encodes.
  \<^verbatim>\<open>json.Marshal\<close> writes one fixed text per document, so equal documents are equal
  byte strings; \<open>JNull\<close> is the document whose text is the four characters \<^verbatim>\<open>null\<close>,
  \<open>JArray []\<close> the one whose text is \<^verbatim>\<open>[]\<close>. Strings are taken to be valid UTF-8,
  which the encoder preserves.
\<close>

datatype json =
    JNull
  | JBool bool
  | JNumber rat
  | JString string
  | JArray "json list"
  | JObject "(string \<times> json) list"

type_synonym bytes = json

text \<open>A Go slice is \<^verbatim>\<open>nil\<close> (\<open>None\<close>) or holds elements; \<^verbatim>\<open>append\<close> to nil allocates.\<close>

type_synonym 'a slice = "'a list option"

definition append_slice :: "'a slice \<Rightarrow> 'a \<Rightarrow> 'a slice" where
  "append_slice s x = (case s of None \<Rightarrow> Some [x] | Some xs \<Rightarrow> Some (xs @ [x]))"

subsection \<open>Errors\<close>

text \<open>
  The calls a contract makes on the ledger stub (key arguments only), and the errors of
  the libraries it uses: \<^verbatim>\<open>strconv\<close> (\<open>NumError\<close>: function name and input),
  \<^verbatim>\<open>encoding/json\<close>, the client identity library and the ledger stub.
\<close>

datatype call =
    CGetState string
  | CPutState string
  | CDelState string
  | CGetPrivateData string string
  | CPutPrivateData string string
  | CGetStateByRange string string
  | CNext string
  | CClose

datatype go_error =
    NumError string string
  | UnsupportedValueError
  | UnmarshalTypeError
  | IdentityError
  | StubError call

text \<open>
  The contract returns Go \<^verbatim>\<open>error\<close> values built with \<^verbatim>\<open>fmt.Errorf\<close>. They are grouped
  by where they arise, following the taxonomy of the specification; each carries the
  fixed message text (with its string arguments substituted) and, where the source
  formats an underlying error with \<^verbatim>\<open>%v\<close> or returns it as it is, that error.
  An empty message text means the underlying error is returned unwrapped.
\<close>

datatype error =
    AuthorizationDenied string
  | ValidationError string go_error
  | NotFound string
  | SerializationError string go_error
  | StoreError string go_error

subsection \<open>Domain types\<close>

record Fisher =
  ID :: string
  Name :: string
  GovtID :: string
  Role :: string

record Catch =
  CatchID :: string
  FisherID :: string
  Species :: string
  WeightKg :: float64
  Date :: string

record Batch =
  BatchID :: string
  CatchIDs :: "string slice"
  ProcessorID :: string
  BatchDate :: string
  QRCodeURL :: string

record Order =
  OrderID :: string
  OrderBatchID :: string
  BuyerID :: string
  Status :: string
  OrderDate :: string


subsection \<open>strconv\<close>

definition digit_of :: "char \<Rightarrow> int option" where
  "digit_of c =
     (if CHR ''0'' \<le> c \<and> c \<le> CHR ''9'' then Some (of_char c - of_char CHR ''0'') else None)"

text \<open>Reads a run of decimal digits: the value so far, the number of digits read, the rest.\<close>

fun read_digits :: "string \<Rightarrow> int \<Rightarrow> nat \<Rightarrow> int \<times> nat \<times> string" where
  "read_digits [] v n = (v, n, [])"
| "read_digits (c # cs) v n =
     (case digit_of c of
        Some d \<Rightarrow> read_digits cs (10 * v + d) (Suc n)
      | None \<Rightarrow> (v, n, c # cs))"

definition strip_sign :: "string \<Rightarrow> bool \<times> string" where
  "strip_sign s =
     (case s of
        [] \<Rightarrow> (False, [])
      | c # cs \<Rightarrow>
          if c = CHR ''+'' then (False, cs)
          else if c = CHR ''-'' then (True, cs)
          else (False, s))"


text \<open>An ASCII capital letter becomes the small letter; every other byte is kept.\<close>

definition lower :: "char \<Rightarrow> char" where
  "lower c =
     (case map_of (zip ''ABCDEFGHIJKLMNOPQRSTUVWXYZ'' ''abcdefghijklmnopqrstuvwxyz'') c of
        Some l \<Rightarrow> l
      | None \<Rightarrow> c)"

text \<open>
  The special values \<^verbatim>\<open>strconv.ParseFloat\<close> accepts: an optionally signed \<^verbatim>\<open>inf\<close> or
  \<^verbatim>\<open>infinity\<close> and an unsigned \<^verbatim>\<open>nan\<close>, in any letter case.
\<close>

definition special :: "string \<Rightarrow> float64 option" where
  "special s =
     (let (neg, t) = strip_sign s; l = map lower t in
      if l = ''inf'' \<or> l = ''infinity'' then Some (if neg then NegInf else PosInf)
      else if map lower s = ''nan'' then Some NaN
      else None)"

text \<open>
  The optional exponent of a decimal literal: \<^verbatim>\<open>e\<close> or \<^verbatim>\<open>E\<close>, an optional sign, at
  least one digit, and nothing after the digits.
\<close>

definition read_exponent :: "string \<Rightarrow> int option" where
  "read_exponent s =
     (case s of
        [] \<Rightarrow> Some 0
      | c # cs \<Rightarrow>
          if lower c \<noteq> CHR ''e'' then None
          else
            let (neg, ds) = strip_sign cs in
            case read_digits ds 0 0 of
              (e, n, rest) \<Rightarrow>
                if n = 0 \<or> rest \<noteq> [] then None
                else Some (if neg then - e else e))"

text \<open>
  A decimal literal: sign, digits with at most one point and at least one digit, optional
  exponent. The result is the exact value of the literal.
\<close>

definition readFloat :: "string \<Rightarrow> rat option" where
  "readFloat s =
     (let (neg, t) = strip_sign s in
      case read_digits t 0 0 of
        (ip, n1, rest1) \<Rightarrow>
          (case (case rest1 of
                   c # cs \<Rightarrow>
                     if c = CHR ''.'' then read_digits cs ip 0 else (ip, 0, rest1)
                 | [] \<Rightarrow> (ip, 0, rest1)) of
             (m, n2, rest2) \<Rightarrow>
               if n1 + n2 = 0 then None
               else
                 (case read_exponent rest2 of
                    None \<Rightarrow> None
                  | Some e \<Rightarrow>
                      let r = (of_int m :: rat) * 10 powi (e - int n2) in
                      Some (if neg then - r else r))))"

text \<open>
  \<^verbatim>\<open>strconv.ParseFloat(s, 64)\<close> on decimal literals and the special values. A literal whose
  value rounds to an infinity (magnitude at least \<open>2^1024 - 2^970\<close>) is a range error.
  Hexadecimal literals and digit-separating underscores are outside this model, which
  rejects them.
\<close>

definition float64_overflow :: "rat \<Rightarrow> bool" where
  "float64_overflow r = (2 ^ 1024 - 2 ^ 970 \<le> \<bar>r\<bar>)"

definition ParseFloat :: "string \<Rightarrow> go_error + float64" where
  "ParseFloat s =
     (case special s of
        Some f \<Rightarrow> Inr f
      | None \<Rightarrow>
          (case readFloat s of
             None \<Rightarrow> Inl (NumError ''ParseFloat'' s)
           | Some r \<Rightarrow>
               if float64_overflow r then Inl (NumError ''ParseFloat'' s)
               else Inr (Finite r)))"

subsection \<open>encoding/json on the contract's structs\<close>

text \<open>
  \<^verbatim>\<open>json.Marshal\<close> writes the fields in declaration order under their tags. A float that
  is NaN or an infinity is an unsupported value; a nil slice is written as \<^verbatim>\<open>null\<close>.
\<close>

definition json_float :: "float64 \<Rightarrow> go_error + json" where
  "json_float f = (case f of Finite r \<Rightarrow> Inr (JNumber r) | _ \<Rightarrow> Inl UnsupportedValueError)"

definition json_strings :: "string slice \<Rightarrow> json" where
  "json_strings s = (case s of None \<Rightarrow> JNull | Some xs \<Rightarrow> JArray (map JString xs))"

fun sequence_sum :: "('e + 'a) list \<Rightarrow> 'e + 'a list" where
  "sequence_sum [] = Inr []"
| "sequence_sum (x # xs) =
     (case x of
        Inl e \<Rightarrow> Inl e
      | Inr a \<Rightarrow> (case sequence_sum xs of Inl e \<Rightarrow> Inl e | Inr as \<Rightarrow> Inr (a # as)))"

definition Marshal_Fisher :: "Fisher \<Rightarrow> go_error + bytes" where
  "Marshal_Fisher f =
     Inr (JObject [(''id'', JString (ID f)), (''name'', JString (Name f)),
                   (''govtId'', JString (GovtID f)), (''role'', JString (Role f))])"

definition Marshal_Catch :: "Catch \<Rightarrow> go_error + bytes" where
  "Marshal_Catch c =
     (case json_float (WeightKg c) of
        Inl e \<Rightarrow> Inl e
      | Inr w \<Rightarrow>
          Inr (JObject [(''catchId'', JString (CatchID c)), (''fisherId'', JString (FisherID c)),
                        (''species'', JString (Species c)), (''weightKg'', w),
                        (''date'', JString (Date c))]))"

definition Marshal_Catches :: "Catch slice \<Rightarrow> go_error + bytes" where
  "Marshal_Catches s =
     (case s of
        None \<Rightarrow> Inr JNull
      | Some cs \<Rightarrow>
          (case sequence_sum (map Marshal_Catch cs) of
             Inl e \<Rightarrow> Inl e
           | Inr js \<Rightarrow> Inr (JArray js)))"

definition Marshal_Batch :: "Batch \<Rightarrow> go_error + bytes" where
  "Marshal_Batch b =
     Inr (JObject [(''batchId'', JString (BatchID b)), (''catchIds'', json_strings (CatchIDs b)),
                   (''processorId'', JString (ProcessorID b)), (''date'', JString (BatchDate b)),
                   (''qrCodeUrl'', JString (QRCodeURL b))])"

definition Marshal_Order :: "Order \<Rightarrow> go_error + bytes" where
  "Marshal_Order ord =
     Inr (JObject [(''orderId'', JString (OrderID ord)), (''batchId'', JString (OrderBatchID ord)),
                   (''buyerId'', JString (BuyerID ord)), (''status'', JString (Status ord)),
                   (''date'', JString (OrderDate ord))])"


text \<open>
  \<^verbatim>\<open>json.Unmarshal\<close> into a zero-valued struct. The document \<^verbatim>\<open>null\<close> leaves the struct
  as it is; an object is decoded member by member; any other document is a type error.
  A member is matched to a field by its key, letter case ignored (ASCII letters here);
  members that match no field are skipped, a \<^verbatim>\<open>null\<close> member leaves its field
  unchanged, a later member overrides an earlier one, and a member of the wrong JSON type
  makes the call return an error.
\<close>

definition fold_name :: "string \<Rightarrow> string" where
  "fold_name k = map lower k"

definition as_string :: "json \<Rightarrow> string \<Rightarrow> go_error + string" where
  "as_string v cur =
     (case v of JNull \<Rightarrow> Inr cur | JString s \<Rightarrow> Inr s | _ \<Rightarrow> Inl UnmarshalTypeError)"

definition as_float :: "json \<Rightarrow> float64 \<Rightarrow> go_error + float64" where
  "as_float v cur =
     (case v of
        JNull \<Rightarrow> Inr cur
      | JNumber r \<Rightarrow> if float64_overflow r then Inl UnmarshalTypeError else Inr (Finite r)
      | _ \<Rightarrow> Inl UnmarshalTypeError)"


fun decode_members ::
  "('r \<Rightarrow> string \<Rightarrow> json \<Rightarrow> go_error + 'r) \<Rightarrow> 'r \<Rightarrow> (string \<times> json) list \<Rightarrow> go_error + 'r"
where
  "decode_members step r [] = Inr r"
| "decode_members step r ((k, v) # kvs) =
     (case step r k v of Inl e \<Rightarrow> Inl e | Inr r' \<Rightarrow> decode_members step r' kvs)"

definition Unmarshal_struct ::
  "('r \<Rightarrow> string \<Rightarrow> json \<Rightarrow> go_error + 'r) \<Rightarrow> 'r \<Rightarrow> bytes \<Rightarrow> go_error + 'r"
where
  "Unmarshal_struct step zero b =
     (case b of
        JNull \<Rightarrow> Inr zero
      | JObject kvs \<Rightarrow> decode_members step zero kvs
      | _ \<Rightarrow> Inl UnmarshalTypeError)"

definition Fisher_member :: "Fisher \<Rightarrow> string \<Rightarrow> json \<Rightarrow> go_error + Fisher" where
  "Fisher_member f k v =
     (if fold_name k = fold_name ''id'' then map_sum id (\<lambda>s. f\<lparr>ID := s\<rparr>) (as_string v (ID f))
      else if fold_name k = fold_name ''name'' then
        map_sum id (\<lambda>s. f\<lparr>Name := s\<rparr>) (as_string v (Name f))
      else if fold_name k = fold_name ''govtId'' then
        map_sum id (\<lambda>s. f\<lparr>GovtID := s\<rparr>) (as_string v (GovtID f))
      else if fold_name k = fold_name ''role'' then
        map_sum id (\<lambda>s. f\<lparr>Role := s\<rparr>) (as_string v (Role f))
      else Inr f)"

definition Unmarshal_Fisher :: "bytes \<Rightarrow> go_error + Fisher" where
  "Unmarshal_Fisher b =
     Unmarshal_struct Fisher_member \<lparr>ID = [], Name = [], GovtID = [], Role = []\<rparr> b"

definition Catch_member :: "Catch \<Rightarrow> string \<Rightarrow> json \<Rightarrow> go_error + Catch" where
  "Catch_member c k v =
     (if fold_name k = fold_name ''catchId'' then
        map_sum id (\<lambda>s. c\<lparr>CatchID := s\<rparr>) (as_string v (CatchID c))
      else if fold_name k = fold_name ''fisherId'' then
        map_sum id (\<lambda>s. c\<lparr>FisherID := s\<rparr>) (as_string v (FisherID c))
      else if fold_name k = fold_name ''species'' then
        map_sum id (\<lambda>s. c\<lparr>Species := s\<rparr>) (as_string v (Species c))
      else if fold_name k = fold_name ''weightKg'' then
        map_sum id (\<lambda>w. c\<lparr>WeightKg := w\<rparr>) (as_float v (WeightKg c))
      else if fold_name k = fold_name ''date'' then
        map_sum id (\<lambda>s. c\<lparr>Date := s\<rparr>) (as_string v (Date c))
      else Inr c)"

definition Unmarshal_Catch :: "bytes \<Rightarrow> go_error + Catch" where
  "Unmarshal_Catch b =
     Unmarshal_struct Catch_member
       \<lparr>CatchID = [], FisherID = [], Species = [], WeightKg = Finite 0, Date = []\<rparr> b"



section \<open>The ledger substrate\<close>

subsection \<open>Client identity\<close>

text \<open>
  The invoking identity as the client identity library presents it: \<open>callerID\<close> is the
  result of \<^verbatim>\<open>GetID\<close> (\<open>None\<close> when it returns an error), \<open>attributes\<close> the attribute
  table of the certificate (\<open>None\<close> when it cannot be read, so that every
  \<^verbatim>\<open>GetAttributeValue\<close> returns an error).
\<close>

record identity =
  callerID :: "string option"
  attributes :: "(string \<times> string) list option"

text \<open>\<^verbatim>\<open>GetAttributeValue(name)\<close> returns \<^verbatim>\<open>(value, found, err)\<close>.\<close>

definition GetAttributeValue :: "identity \<Rightarrow> string \<Rightarrow> string \<times> bool \<times> go_error option" where
  "GetAttributeValue ci name =
     (case attributes ci of
        None \<Rightarrow> ([], False, Some IdentityError)
      | Some as \<Rightarrow>
          (case map_of as name of
             None \<Rightarrow> ([], False, None)
           | Some v \<Rightarrow> (v, True, None)))"

definition GetID :: "identity \<Rightarrow> string \<times> go_error option" where
  "GetID ci = (case callerID ci of None \<Rightarrow> ([], Some IdentityError) | Some i \<Rightarrow> (i, None))"

subsection \<open>World state, private data and range iterators\<close>

text \<open>
  The stub of one peer: the committed world state and the private data collections as
  association lists read through \<^const>\<open>map_of\<close>, the calls the substrate fails
  (\<open>faulty\<close>), and the log of the calls made so far (\<open>calls\<close>). Every contract function
  runs as one transaction; none reads a key after writing it, so a write is applied to the
  state as the commit of the transaction does.
\<close>

record stub =
  world :: "(string \<times> bytes) list"
  pvt :: "((string \<times> string) \<times> bytes) list"
  faulty :: "call list"
  calls :: "call list"

definition record_call :: "call \<Rightarrow> stub \<Rightarrow> stub" where
  "record_call c st = st\<lparr>calls := calls st @ [c]\<rparr>"

definition GetState :: "string \<Rightarrow> stub \<Rightarrow> (go_error + bytes option) \<times> stub" where
  "GetState key st =
     (if CGetState key \<in> set (faulty st)
      then (Inl (StubError (CGetState key)), record_call (CGetState key) st)
      else (Inr (map_of (world st) key), record_call (CGetState key) st))"

definition PutState :: "string \<Rightarrow> bytes \<Rightarrow> stub \<Rightarrow> go_error option \<times> stub" where
  "PutState key val st =
     (if CPutState key \<in> set (faulty st)
      then (Some (StubError (CPutState key)), record_call (CPutState key) st)
      else (None, record_call (CPutState key) (st\<lparr>world := AList.update key val (world st)\<rparr>)))"


definition GetPrivateData :: "string \<Rightarrow> string \<Rightarrow> stub \<Rightarrow> (go_error + bytes option) \<times> stub" where
  "GetPrivateData coll key st =
     (if CGetPrivateData coll key \<in> set (faulty st)
      then (Inl (StubError (CGetPrivateData coll key)), record_call (CGetPrivateData coll key) st)
      else (Inr (map_of (pvt st) (coll, key)), record_call (CGetPrivateData coll key) st))"

definition PutPrivateData :: "string \<Rightarrow> string \<Rightarrow> bytes \<Rightarrow> stub \<Rightarrow> go_error option \<times> stub" where
  "PutPrivateData coll key val st =
     (if CPutPrivateData coll key \<in> set (faulty st)
      then (Some (StubError (CPutPrivateData coll key)), record_call (CPutPrivateData coll key) st)
      else (None, record_call (CPutPrivateData coll key)
                    (st\<lparr>pvt := AList.update (coll, key) val (pvt st)\<rparr>)))"

text \<open>
  \<^verbatim>\<open>GetStateByRange(startKey, endKey)\<close>: the entries of the world state with
  \<open>startKey \<le> key < endKey\<close>, in ascending key order. The iterator is the list of the
  entries not yet delivered.
\<close>

type_synonym iterator = "(string \<times> bytes) list"

definition range_items :: "(string \<times> bytes) list \<Rightarrow> string \<Rightarrow> string \<Rightarrow> iterator" where
  "range_items w startKey endKey =
     List.map_filter
       (\<lambda>k. if startKey \<le> k \<and> k < endKey then map_option (Pair k) (map_of w k) else None)
       (sort (remdups (map fst w)))"

definition GetStateByRange :: "string \<Rightarrow> string \<Rightarrow> stub \<Rightarrow> (go_error + iterator) \<times> stub" where
  "GetStateByRange startKey endKey st =
     (if CGetStateByRange startKey endKey \<in> set (faulty st)
      then (Inl (StubError (CGetStateByRange startKey endKey)),
            record_call (CGetStateByRange startKey endKey) st)
      else (Inr (range_items (world st) startKey endKey),
            record_call (CGetStateByRange startKey endKey) st))"

text \<open>
  \<^verbatim>\<open>HasNext\<close> tells whether an entry remains (the list is not empty); \<^verbatim>\<open>Next\<close>, called
  after it, delivers the first remaining entry or fails.
\<close>

definition Next :: "string \<times> bytes \<Rightarrow> stub \<Rightarrow> (go_error + bytes) \<times> stub" where
  "Next kv st =
     (if CNext (fst kv) \<in> set (faulty st)
      then (Inl (StubError (CNext (fst kv))), record_call (CNext (fst kv)) st)
      else (Inr (snd kv), record_call (CNext (fst kv)) st))"

definition Close :: "stub \<Rightarrow> stub" where
  "Close st = record_call CClose st"

section \<open>The current chaincode\<close>

subsection \<open>Helpers\<close>

definition hasRole :: "identity \<Rightarrow> string \<Rightarrow> bool" where
  "hasRole ci role =
     (case GetAttributeValue ci ''role'' of
        (val, found, err) \<Rightarrow> if err \<noteq> None \<or> \<not> found then False else val = role)"


text \<open>A stub error returned to the caller as it is, or under a message.\<close>

definition put_result :: "string \<Rightarrow> go_error option \<times> stub \<Rightarrow> error option \<times> stub" where
  "put_result msg r = (map_option (StoreError msg) (fst r), snd r)"

subsection \<open>Fishers\<close>

definition RegisterFisher ::
  "identity \<Rightarrow> string \<Rightarrow> string \<Rightarrow> string \<Rightarrow> stub \<Rightarrow> error option \<times> stub"
where
  "RegisterFisher ci i name govtId st =
     (if \<not> hasRole ci ''authority''
      then (Some (AuthorizationDenied ''only authority can register fishers''), st)
      else
        let fisher = \<lparr>ID = i, Name = name, GovtID = govtId, Role = ''fisher''\<rparr> in
        case Marshal_Fisher fisher of
          Inl err \<Rightarrow> (Some (SerializationError ''failed to marshal fisher'' err), st)
        | Inr fisherBytes \<Rightarrow>
            put_result [] (PutPrivateData ''FisherCollection'' (''FISHER_'' @ i) fisherBytes st))"

definition GetFisher :: "identity \<Rightarrow> string \<Rightarrow> stub \<Rightarrow> (error + Fisher) \<times> stub" where
  "GetFisher ci fisherID st =
     (case GetPrivateData ''FisherCollection'' (''FISHER_'' @ fisherID) st of
        (Inl err, st') \<Rightarrow> (Inl (StoreError (''failed to read fisher '' @ fisherID) err), st')
      | (Inr None, st') \<Rightarrow> (Inl (NotFound (''fisher '' @ fisherID @ '' does not exist'')), st')
      | (Inr (Some fisherBytes), st') \<Rightarrow>
          (case Unmarshal_Fisher fisherBytes of
             Inl err \<Rightarrow> (Inl (SerializationError ''failed to unmarshal fisher data'' err), st')
           | Inr fisher \<Rightarrow> (Inr fisher, st')))"

subsection \<open>Catches\<close>

text \<open>
  The role and caller check of \<^verbatim>\<open>LogCatch\<close> is commented out in the source
  (\<^verbatim>\<open>// Uncomment when ready to enforce access control\<close>): the function does not consult
  the identity.
\<close>

definition LogCatch ::
  "identity \<Rightarrow> string \<Rightarrow> string \<Rightarrow> string \<Rightarrow> string \<Rightarrow> string \<Rightarrow> stub \<Rightarrow> error option \<times> stub"
where
  "LogCatch ci catchId fisherId species weightKgStr date st =
     (case ParseFloat weightKgStr of
        Inl err \<Rightarrow> (Some (ValidationError (''invalid weightKg value '' @ weightKgStr) err), st)
      | Inr weightKg \<Rightarrow>
          let catch = \<lparr>CatchID = catchId, FisherID = fisherId, Species = species,
                       WeightKg = weightKg, Date = date\<rparr> in
          (case Marshal_Catch catch of
             Inl err \<Rightarrow> (Some (SerializationError ''failed to marshal catch data'' err), st)
           | Inr catchBytes \<Rightarrow> put_result [] (PutState (''CATCH_'' @ catchId) catchBytes st)))"

subsection \<open>Batches\<close>

definition CreateBatch ::
  "identity \<Rightarrow> string \<Rightarrow> string slice \<Rightarrow> string \<Rightarrow> string \<Rightarrow> stub \<Rightarrow> error option \<times> stub"
where
  "CreateBatch ci batchId catchIds processorId date st =
     (if \<not> hasRole ci ''processor''
      then (Some (AuthorizationDenied ''only processor can create batches''), st)
      else
        let batch = \<lparr>BatchID = batchId, CatchIDs = catchIds, ProcessorID = processorId,
                     BatchDate = date,
                     QRCodeURL = ''https://getreech.example.org/batch/'' @ batchId\<rparr> in
        case Marshal_Batch batch of
          Inl err \<Rightarrow> (Some (SerializationError ''failed to marshal batch data'' err), st)
        | Inr batchBytes \<Rightarrow> put_result [] (PutState (''BATCH_'' @ batchId) batchBytes st))"


subsection \<open>Orders\<close>

definition PlaceOrder ::
  "identity \<Rightarrow> string \<Rightarrow> string \<Rightarrow> string \<Rightarrow> string \<Rightarrow> stub \<Rightarrow> error option \<times> stub"
where
  "PlaceOrder ci orderId batchId buyerId date st =
     (if \<not> hasRole ci ''buyer''
      then (Some (AuthorizationDenied ''only buyer can place orders''), st)
      else
        let order = \<lparr>OrderID = orderId, OrderBatchID = batchId, BuyerID = buyerId,
                     Status = ''placed'', OrderDate = date\<rparr> in
        case Marshal_Order order of
          Inl err \<Rightarrow> (Some (SerializationError ''failed to marshal order data'' err), st)
        | Inr orderBytes \<Rightarrow> put_result [] (PutState (''ORDER_'' @ orderId) orderBytes st))"

subsection \<open>Reporting\<close>

text \<open>
  The \<^verbatim>\<open>for resultsIterator.HasNext()\<close> loop of \<^verbatim>\<open>GenerateReport\<close>. The two variants of
  the contract run the same loop and differ only in the message they put around an
  iteration error (\<open>msgNext\<close>) and around a decoding error (\<open>msgJson\<close>).
\<close>

fun report_loop ::
  "string \<Rightarrow> string \<Rightarrow> string \<Rightarrow> string \<Rightarrow> iterator \<Rightarrow> Catch slice \<Rightarrow> stub
     \<Rightarrow> (error + Catch slice) \<times> stub"
where
  "report_loop msgNext msgJson startDate endDate [] catches st = (Inr catches, st)"
| "report_loop msgNext msgJson startDate endDate (kv # it) catches st =
     (case Next kv st of
        (Inl err, st') \<Rightarrow> (Inl (StoreError msgNext err), st')
      | (Inr val, st') \<Rightarrow>
          (case Unmarshal_Catch val of
             Inl err \<Rightarrow> (Inl (SerializationError msgJson err), st')
           | Inr catch \<Rightarrow>
               if startDate \<le> Date catch \<and> Date catch \<le> endDate
               then report_loop msgNext msgJson startDate endDate it (append_slice catches catch) st'
               else report_loop msgNext msgJson startDate endDate it catches st'))"

text \<open>
  \<^verbatim>\<open>defer resultsIterator.Close()\<close> runs on every return after the iterator was opened.
\<close>

definition GenerateReport :: "identity \<Rightarrow> string \<Rightarrow> string \<Rightarrow> stub \<Rightarrow> (error + bytes) \<times> stub" where
  "GenerateReport ci startDate endDate st =
     (if \<not> hasRole ci ''authority''
      then (Inl (AuthorizationDenied ''only authority can generate reports''), st)
      else
        case GetStateByRange ''CATCH_'' ''CATCH_~'' st of
          (Inl err, st') \<Rightarrow> (Inl (StoreError ''failed to get catches by range'' err), st')
        | (Inr resultsIterator, st') \<Rightarrow>
            (case report_loop ''failed during results iteration'' ''failed to unmarshal catch data''
                    startDate endDate resultsIterator None st' of
               (Inl e, st'') \<Rightarrow> (Inl e, Close st'')
             | (Inr catches, st'') \<Rightarrow>
                 (case Marshal_Catches catches of
                    Inl err \<Rightarrow> (Inl (SerializationError ''failed to marshal report data'' err), Close st'')
                  | Inr reportBytes \<Rightarrow> (Inr reportBytes, Close st''))))"

section \<open>The backup variant (bigdatacc.go)\<close>

subsection \<open>Helpers\<close>

text \<open>
  The source documents this \<^verbatim>\<open>hasRole\<close> as permissive: \<^verbatim>\<open>If attribute absent, permissive
  for local testing. For production: change to require attribute presence and exact match.\<close>
\<close>

definition hasRole_backup :: "identity \<Rightarrow> string \<Rightarrow> bool" where
  "hasRole_backup ci role =
     (case GetAttributeValue ci ''role'' of
        (val, found, err) \<Rightarrow>
          if err \<noteq> None then True
          else if \<not> found then True
          else val = role)"

definition isCaller_backup :: "identity \<Rightarrow> string \<Rightarrow> bool" where
  "isCaller_backup ci i =
     (case GetID ci of (clientID, err) \<Rightarrow> if err \<noteq> None then False else clientID = i)"

subsection \<open>Fishers\<close>

definition RegisterFisher_backup ::
  "identity \<Rightarrow> string \<Rightarrow> string \<Rightarrow> string \<Rightarrow> stub \<Rightarrow> error option \<times> stub"
where
  "RegisterFisher_backup ci i name govtId st =
     (if \<not> hasRole_backup ci ''authority''
      then (Some (AuthorizationDenied ''only authority can register fishers''), st)
      else
        let f = \<lparr>ID = i, Name = name, GovtID = govtId, Role = ''fisher''\<rparr> in
        case Marshal_Fisher f of
          Inl err \<Rightarrow> (Some (SerializationError [] err), st)
        | Inr b \<Rightarrow> put_result [] (PutState (''FISHER_'' @ i) b st))"

definition GetFisher_backup :: "identity \<Rightarrow> string \<Rightarrow> stub \<Rightarrow> (error + Fisher) \<times> stub" where
  "GetFisher_backup ci fisherID st =
     (case GetState (''FISHER_'' @ fisherID) st of
        (Inl err, st') \<Rightarrow> (Inl (StoreError (''failed to read fisher '' @ fisherID) err), st')
      | (Inr None, st') \<Rightarrow> (Inl (NotFound (''fisher '' @ fisherID @ '' does not exist'')), st')
      | (Inr (Some b), st') \<Rightarrow>
          (case Unmarshal_Fisher b of
             Inl err \<Rightarrow> (Inl (SerializationError [] err), st')
           | Inr f \<Rightarrow> (Inr f, st')))"

subsection \<open>Catches\<close>

definition LogCatch_backup ::
  "identity \<Rightarrow> string \<Rightarrow> string \<Rightarrow> string \<Rightarrow> string \<Rightarrow> string \<Rightarrow> stub \<Rightarrow> error option \<times> stub"
where
  "LogCatch_backup ci catchId fisherId species weightKgStr date st =
     (if \<not> hasRole_backup ci ''fisher'' \<and> \<not> isCaller_backup ci fisherId
      then (Some (AuthorizationDenied ''only the fisher can log their catch''), st)
      else
        case ParseFloat weightKgStr of
          Inl err \<Rightarrow> (Some (ValidationError ''invalid weightKg'' err), st)
        | Inr weightKg \<Rightarrow>
            let c = \<lparr>CatchID = catchId, FisherID = fisherId, Species = species,
                     WeightKg = weightKg, Date = date\<rparr> in
            (case Marshal_Catch c of
               Inl err \<Rightarrow> (Some (SerializationError [] err), st)
             | Inr b \<Rightarrow> put_result [] (PutState (''CATCH_'' @ catchId) b st)))"

definition GetCatch :: "identity \<Rightarrow> string \<Rightarrow> stub \<Rightarrow> (error + Catch) \<times> stub" where
  "GetCatch ci catchId st =
     (case GetState (''CATCH_'' @ catchId) st of
        (Inl err, st') \<Rightarrow> (Inl (StoreError [] err), st')
      | (Inr None, st') \<Rightarrow> (Inl (NotFound (''catch '' @ catchId @ '' not found'')), st')
      | (Inr (Some b), st') \<Rightarrow>
          (case Unmarshal_Catch b of
             Inl err \<Rightarrow> (Inl (SerializationError [] err), st')
           | Inr c \<Rightarrow> (Inr c, st')))"

subsection \<open>Batches and orders\<close>

definition CreateBatch_backup ::
  "identity \<Rightarrow> string \<Rightarrow> string slice \<Rightarrow> string \<Rightarrow> string \<Rightarrow> stub \<Rightarrow> error option \<times> stub"
where
  "CreateBatch_backup ci batchId catchIds processorId date st =
     (if \<not> hasRole_backup ci ''processor''
      then (Some (AuthorizationDenied ''only processor can create batches''), st)
      else
        let batch = \<lparr>BatchID = batchId, CatchIDs = catchIds, ProcessorID = processorId,
                     BatchDate = date, QRCodeURL = ''https://example.org/batch/'' @ batchId\<rparr> in
        case Marshal_Batch batch of
          Inl err \<Rightarrow> (Some (SerializationError [] err), st)
        | Inr b \<Rightarrow> put_result [] (PutState (''BATCH_'' @ batchId) b st))"


definition PlaceOrder_backup ::
  "identity \<Rightarrow> string \<Rightarrow> string \<Rightarrow> string \<Rightarrow> string \<Rightarrow> stub \<Rightarrow> error option \<times> stub"
where
  "PlaceOrder_backup ci orderId batchId buyerId date st =
     (if \<not> hasRole_backup ci ''buyer''
      then (Some (AuthorizationDenied ''only buyer can place orders''), st)
      else
        let ord = \<lparr>OrderID = orderId, OrderBatchID = batchId, BuyerID = buyerId,
                   Status = ''placed'', OrderDate = date\<rparr> in
        case Marshal_Order ord of
          Inl err \<Rightarrow> (Some (SerializationError [] err), st)
        | Inr b \<Rightarrow> put_result [] (PutState (''ORDER_'' @ orderId) b st))"

subsection \<open>Reporting\<close>

definition GenerateReport_backup ::
  "identity \<Rightarrow> string \<Rightarrow> string \<Rightarrow> stub \<Rightarrow> (error + bytes) \<times> stub"
where
  "GenerateReport_backup ci startDate endDate st =
     (if \<not> hasRole_backup ci ''authority''
      then (Inl (AuthorizationDenied ''only authority can generate reports''), st)
      else
        case GetStateByRange ''CATCH_'' ''CATCH_~'' st of
          (Inl err, st') \<Rightarrow> (Inl (StoreError [] err), st')
        | (Inr iter, st') \<Rightarrow>
            (case report_loop [] [] startDate endDate iter None st' of
               (Inl e, st'') \<Rightarrow> (Inl e, Close st'')
             | (Inr out, st'') \<Rightarrow>
                 (case Marshal_Catches out of
                    Inl err \<Rightarrow> (Inl (SerializationError [] err), Close st'')
                  | Inr b \<Rightarrow> (Inr b, Close st''))))"

subsection \<open>Asset helpers (test utilities)\<close>






section \<open>Properties\<close>

subsection \<open>Sample callers and ledgers\<close>

text \<open>
  Concrete inputs for the evaluations below: an empty ledger with no failing call, a
  caller enrolled as authority, the fisher \<open>F001\<close>, a caller with the identifier \<open>F001\<close>
  and the role processor, and a caller whose role attribute is none of the contract's
  roles and whose identifier is \<open>F002\<close>.
\<close>

definition ledger0 :: stub where
  "ledger0 = \<lparr>world = [], pvt = [], faulty = [], calls = []\<rparr>"

text \<open>
  The ledger of the repository's report test: two catches dated \<open>2025-08-09\<close> and
  \<open>2025-08-10\<close> (stored here in descending key order, beside a batch), and the same ledger
  on a substrate that fails to deliver the second entry of a scan.
\<close>

definition catch1 :: bytes where
  "catch1 =
     JObject [(''catchId'', JString ''C001''), (''fisherId'', JString ''F001''),
              (''species'', JString ''Tilapia''), (''weightKg'', JNumber (21 / 2)),
              (''date'', JString ''2025-08-09'')]"

definition catch2 :: bytes where
  "catch2 =
     JObject [(''catchId'', JString ''C002''), (''fisherId'', JString ''F002''),
              (''species'', JString ''Nile Perch''), (''weightKg'', JNumber 15),
              (''date'', JString ''2025-08-10'')]"

definition ledger1 :: stub where
  "ledger1 =
     \<lparr>world = [(''CATCH_C002'', catch2), (''BATCH_B001'', JString ''B001''),
               (''CATCH_C001'', catch1)],
      pvt = [], faulty = [], calls = []\<rparr>"

definition ledger1_failing :: stub where
  "ledger1_failing = ledger1\<lparr>faulty := [CNext ''CATCH_C002'']\<rparr>"

definition authority :: identity where
  "authority = \<lparr>callerID = Some ''admin'', attributes = Some [(''role'', ''authority'')]\<rparr>"

definition fisher1 :: identity where
  "fisher1 = \<lparr>callerID = Some ''F001'', attributes = Some [(''role'', ''fisher'')]\<rparr>"

definition processor1 :: identity where
  "processor1 = \<lparr>callerID = Some ''F001'', attributes = Some [(''role'', ''processor'')]\<rparr>"

definition outsider :: identity where
  "outsider = \<lparr>callerID = Some ''F002'', attributes = Some [(''role'', ''auditor'')]\<rparr>"

subsection \<open>The keys an operation passes to the substrate\<close>


text \<open>The calls logged between a state and a later one.\<close>

definition new_calls :: "stub \<Rightarrow> stub \<Rightarrow> call list" where
  "new_calls st st' = drop (length (calls st)) (calls st')"


subsection \<open>The report, as the specification words it\<close>

text \<open>
  The specification of \<open>GenerateReport\<close>: scan the range from \<open>CATCH_\<close> (inclusive) to
  \<open>CATCH_~\<close> (exclusive) forward; decode every entry; keep the records whose date lies
  between the start and the end date, both inclusive, in the byte order of strings; return
  the kept records, in scan order, as one payload. A failure of the scan or of a decoding
  gives no payload. The accumulator starts as a nil slice, so it is still nil when no
  record was kept.
\<close>

definition in_period :: "string \<Rightarrow> string \<Rightarrow> Catch \<Rightarrow> bool" where
  "in_period startDate endDate c = (startDate \<le> Date c \<and> Date c \<le> endDate)"

definition decoded :: "iterator \<Rightarrow> Catch list" where
  "decoded items =
     List.map_filter
       (\<lambda>kv. case Unmarshal_Catch (snd kv) of Inl e \<Rightarrow> None | Inr c \<Rightarrow> Some c) items"

definition report_records :: "string \<Rightarrow> string \<Rightarrow> iterator \<Rightarrow> Catch list" where
  "report_records startDate endDate items = filter (in_period startDate endDate) (decoded items)"

text \<open>No entry of the scan fails: the substrate delivers it and it decodes as a catch.\<close>

definition scan_ok :: "stub \<Rightarrow> iterator \<Rightarrow> bool" where
  "scan_ok st items =
     list_all (\<lambda>kv. CNext (fst kv) \<notin> set (faulty st) \<and> \<not> isl (Unmarshal_Catch (snd kv))) items"

text \<open>The slice a loop builds by appending to a nil slice.\<close>

definition slice_of :: "'a list \<Rightarrow> 'a slice" where
  "slice_of xs = (if xs = [] then None else Some xs)"

definition payload :: "error + bytes \<Rightarrow> bytes option" where
  "payload r = (case r of Inl e \<Rightarrow> None | Inr b \<Rightarrow> Some b)"

definition report_spec :: "string \<Rightarrow> string \<Rightarrow> stub \<Rightarrow> bytes option" where
  "report_spec startDate endDate st =
     (let items = range_items (world st) ''CATCH_'' ''CATCH_~'' in
      if CGetStateByRange ''CATCH_'' ''CATCH_~'' \<in> set (faulty st) then None
      else if \<not> scan_ok st items then None
      else
        (case Marshal_Catches (slice_of (report_records startDate endDate items)) of
           Inl e \<Rightarrow> None
         | Inr b \<Rightarrow> Some b))"

subsection \<open>Authorization policy\<close>

lemma hasRole_iff:
  "hasRole ci role =
     (case attributes ci of
        None \<Rightarrow> False
      | Some as \<Rightarrow> (case map_of as ''role'' of None \<Rightarrow> False | Some v \<Rightarrow> v = role))"
  by (simp add: hasRole_def GetAttributeValue_def split: option.splits)

lemma hasRole_backup_iff:
  "hasRole_backup ci role =
     (case attributes ci of
        None \<Rightarrow> True
      | Some as \<Rightarrow> (case map_of as ''role'' of None \<Rightarrow> True | Some v \<Rightarrow> v = role))"
  by (simp add: hasRole_backup_def GetAttributeValue_def split: option.splits)


lemma authority_roles:
  "hasRole authority ''authority''" "hasRole_backup authority ''authority''"
  by (simp_all add: authority_def hasRole_def hasRole_backup_def GetAttributeValue_def)

text \<open>
  Claim C4, as amended. \<open>hasRole\<close> of the current chaincode is strict: it returns false
  when reading the \<open>role\<close> attribute signals an error or the attribute is absent, and true
  exactly when the attribute is present, readable and equal to the required role. The
  \<open>hasRole\<close> of the backup variant is permissive, as its comments say: it returns true
  when the read signals an error or the attribute is absent, and otherwise compares the
  attribute with the required role.
\<close>

theorem hasRole_modes:
  "hasRole ci role =
     (case attributes ci of
        None \<Rightarrow> False
      | Some as \<Rightarrow> (case map_of as ''role'' of None \<Rightarrow> False | Some v \<Rightarrow> v = role))
   \<and> hasRole_backup ci role =
     (case attributes ci of
        None \<Rightarrow> True
      | Some as \<Rightarrow> (case map_of as ''role'' of None \<Rightarrow> True | Some v \<Rightarrow> v = role))"
  by (simp add: hasRole_iff hasRole_backup_iff)

theorem hasRole_modes_witness:
  "hasRole \<lparr>callerID = Some ''admin'', attributes = Some [(''role'', ''authority'')]\<rparr> ''authority''
   \<and> \<not> hasRole \<lparr>callerID = Some ''admin'', attributes = Some []\<rparr> ''authority''
   \<and> \<not> hasRole \<lparr>callerID = Some ''admin'', attributes = None\<rparr> ''authority''
   \<and> \<not> hasRole \<lparr>callerID = Some ''admin'', attributes = Some [(''role'', ''buyer'')]\<rparr> ''authority''
   \<and> hasRole_backup \<lparr>callerID = Some ''admin'', attributes = Some [(''role'', ''authority'')]\<rparr> ''authority''
   \<and> \<not> hasRole_backup \<lparr>callerID = Some ''admin'', attributes = Some [(''role'', ''buyer'')]\<rparr> ''authority''"
  using hasRole_modes [of "\<lparr>callerID = Some ''admin'', attributes = Some [(''role'', ''authority'')]\<rparr>" "''authority''"]
    hasRole_modes [of "\<lparr>callerID = Some ''admin'', attributes = Some []\<rparr>" "''authority''"]
    hasRole_modes [of "\<lparr>callerID = Some ''admin'', attributes = None\<rparr>" "''authority''"]
    hasRole_modes [of "\<lparr>callerID = Some ''admin'', attributes = Some [(''role'', ''buyer'')]\<rparr>" "''authority''"]
  by simp

text \<open>
  Claim C4 as stated fails on the backup variant: its \<open>hasRole\<close> returns true for a
  caller without a \<open>role\<close> attribute, and for a caller whose attributes cannot be read.
\<close>

theorem hasRole_backup_permissive:
  "hasRole_backup \<lparr>callerID = Some ''admin'', attributes = Some []\<rparr> ''authority''
   \<and> hasRole_backup \<lparr>callerID = Some ''admin'', attributes = None\<rparr> ''authority''"
  by (simp add: hasRole_backup_def GetAttributeValue_def)



subsection \<open>Registration and lookup of fishers\<close>

lemma fold_name_tags:
  "fold_name ''id'' = ''id''" "fold_name ''name'' = ''name''" "fold_name ''govtId'' = ''govtid''"
  "fold_name ''role'' = ''role''" "fold_name ''catchId'' = ''catchid''"
  "fold_name ''fisherId'' = ''fisherid''" "fold_name ''species'' = ''species''"
  "fold_name ''weightKg'' = ''weightkg''" "fold_name ''date'' = ''date''"
  by (simp_all add: fold_name_def lower_def)


lemma record_call_fields [simp]:
  "world (record_call c st) = world st" "pvt (record_call c st) = pvt st"
  "faulty (record_call c st) = faulty st" "calls (record_call c st) = calls st @ [c]"
  by (simp_all add: record_call_def)





subsection \<open>Lookups\<close>










subsection \<open>Storage keys\<close>

lemma new_calls_record_call [simp]:
  "new_calls st (record_call c st') = new_calls st st' @ [c]" if "length (calls st) \<le> length (calls st')"
  using that by (simp add: new_calls_def)

lemma new_calls_same [simp]: "new_calls st st = []"
  by (simp add: new_calls_def)

lemma new_calls_update [simp]:
  "new_calls st (st'\<lparr>world := w\<rparr>) = new_calls st st'"
  "new_calls st (st'\<lparr>pvt := p\<rparr>) = new_calls st st'"
  by (simp_all add: new_calls_def)

lemma calls_update [simp]:
  "calls (st\<lparr>world := w\<rparr>) = calls st" "calls (st\<lparr>pvt := p\<rparr>) = calls st"
  by simp_all









lemma ParseFloat_10_5: "ParseFloat ''10.5'' = Inr (Finite (21 / 2))"
  by (simp add: ParseFloat_def special_def strip_sign_def lower_def readFloat_def
      read_exponent_def digit_of_def float64_overflow_def)

subsection \<open>Reporting\<close>

lemma append_slice_slice_of:
  "append_slice (slice_of xs) c = slice_of (xs @ [c])"
  by (simp add: slice_of_def append_slice_def)

lemma scan_ok_record_call [simp]: "scan_ok (record_call c st) items = scan_ok st items"
  by (simp add: scan_ok_def)

lemma scan_ok_Cons:
  "scan_ok st (kv # items) =
     (CNext (fst kv) \<notin> set (faulty st) \<and> \<not> isl (Unmarshal_Catch (snd kv)) \<and> scan_ok st items)"
  by (simp add: scan_ok_def)

lemma report_records_Cons:
  "report_records s e (kv # items) =
     (case Unmarshal_Catch (snd kv) of
        Inl err \<Rightarrow> report_records s e items
      | Inr c \<Rightarrow> if s \<le> Date c \<and> Date c \<le> e then c # report_records s e items
                 else report_records s e items)"
  by (simp add: report_records_def decoded_def in_period_def split: sum.splits)

lemma report_loop_ok:
  "scan_ok st items \<Longrightarrow>
     fst (report_loop m1 m2 s e items (slice_of acc) st) =
       Inr (slice_of (acc @ report_records s e items))"
proof (induction items arbitrary: acc st)
  case Nil
  then show ?case by (simp add: report_records_def decoded_def)
next
  case (Cons kv items)
  from Cons.prems obtain c where c: "Unmarshal_Catch (snd kv) = Inr c"
    by (cases "Unmarshal_Catch (snd kv)") (simp_all add: scan_ok_Cons)
  from Cons.prems have ok: "CNext (fst kv) \<notin> set (faulty st)" "scan_ok st items"
    by (simp_all add: scan_ok_Cons)
  show ?case
    using c ok Cons.IH [of "record_call (CNext (fst kv)) st" "acc @ [c]"]
      Cons.IH [of "record_call (CNext (fst kv)) st" acc]
    by (simp add: Next_def report_records_Cons append_slice_slice_of)
qed

lemma report_loop_fail:
  "\<not> scan_ok st items \<Longrightarrow> isl (fst (report_loop m1 m2 s e items acc st))"
proof (induction items arbitrary: acc st)
  case Nil
  then show ?case by (simp add: scan_ok_def)
next
  case (Cons kv items)
  show ?case
  proof (cases "CNext (fst kv) \<in> set (faulty st)")
    case True
    then show ?thesis by (simp add: Next_def)
  next
    case False
    show ?thesis
    proof (cases "Unmarshal_Catch (snd kv)")
      case (Inl err)
      with False show ?thesis by (simp add: Next_def)
    next
      case (Inr c)
      with False Cons.prems have "\<not> scan_ok (record_call (CNext (fst kv)) st) items"
        by (simp add: scan_ok_Cons)
      with False Inr Cons.IH show ?thesis by (simp add: Next_def)
    qed
  qed
qed


lemma Catch_member_finite:
  "Catch_member c k v = Inr c' \<Longrightarrow> \<exists>r. WeightKg c = Finite r \<Longrightarrow> \<exists>r. WeightKg c' = Finite r"
  by (auto simp add: Catch_member_def as_float_def as_string_def split: if_splits json.splits)

lemma decode_members_finite:
  "decode_members Catch_member c kvs = Inr c' \<Longrightarrow> \<exists>r. WeightKg c = Finite r \<Longrightarrow>
     \<exists>r. WeightKg c' = Finite r"
proof (induction kvs arbitrary: c)
  case Nil
  then show ?case by simp
next
  case (Cons kv kvs)
  obtain k v where kv: "kv = (k, v)" by (cases kv)
  from Cons.prems(1) obtain c1 where c1: "Catch_member c k v = Inr c1"
    and rest: "decode_members Catch_member c1 kvs = Inr c'"
    by (auto simp add: kv split: sum.splits)
  from Catch_member_finite [OF c1 Cons.prems(2)] Cons.IH [OF rest] show ?case by blast
qed

lemma Unmarshal_Catch_finite:
  "Unmarshal_Catch b = Inr c \<Longrightarrow> \<exists>r. WeightKg c = Finite r"
  by (auto simp add: Unmarshal_Catch_def Unmarshal_struct_def split: json.splits
      dest: decode_members_finite)

lemma decoded_finite: "c \<in> set (decoded items) \<Longrightarrow> \<exists>r. WeightKg c = Finite r"
  by (auto simp add: decoded_def List.map_filter_def split: sum.splits
      dest: Unmarshal_Catch_finite)

lemma sequence_sum_Marshal_Catch:
  "(\<And>c. c \<in> set cs \<Longrightarrow> \<exists>r. WeightKg c = Finite r) \<Longrightarrow>
     \<exists>js. sequence_sum (map Marshal_Catch cs) = Inr js \<and> length js = length cs"
proof (induction cs)
  case Nil
  then show ?case by simp
next
  case (Cons c cs)
  from Cons.prems obtain r where "WeightKg c = Finite r" by auto
  then obtain j where "Marshal_Catch c = Inr j"
    by (simp add: Marshal_Catch_def json_float_def)
  moreover from Cons obtain js where "sequence_sum (map Marshal_Catch cs) = Inr js"
    "length js = length cs" by auto
  ultimately show ?case by simp
qed

lemma Marshal_Catches_report:
  "\<exists>b. Marshal_Catches (slice_of (report_records s e items)) = Inr b
     \<and> (b = JNull \<longleftrightarrow> report_records s e items = [])"
proof (cases "report_records s e items = []")
  case True
  then show ?thesis by (simp add: Marshal_Catches_def slice_of_def)
next
  case False
  have "\<And>c. c \<in> set (report_records s e items) \<Longrightarrow> \<exists>r. WeightKg c = Finite r"
    by (auto simp add: report_records_def dest: decoded_finite)
  from sequence_sum_Marshal_Catch [OF this] obtain js
    where "sequence_sum (map Marshal_Catch (report_records s e items)) = Inr js" by blast
  with False show ?thesis by (simp add: Marshal_Catches_def slice_of_def)
qed

lemma GenerateReport_payload:
  assumes "hasRole ci ''authority''"
  shows "payload (fst (GenerateReport ci s e st)) = report_spec s e st"
proof (cases "CGetStateByRange ''CATCH_'' ''CATCH_~'' \<in> set (faulty st)")
  case True
  with assms show ?thesis
    by (simp add: GenerateReport_def GetStateByRange_def report_spec_def payload_def)
next
  case False
  let ?items = "range_items (world st) ''CATCH_'' ''CATCH_~''"
  let ?st1 = "record_call (CGetStateByRange ''CATCH_'' ''CATCH_~'') st"
  let ?loop = "report_loop ''failed during results iteration'' ''failed to unmarshal catch data''
                 s e ?items None ?st1"
  obtain r st2 where loop: "?loop = (r, st2)" by (cases ?loop)
  show ?thesis
  proof (cases "scan_ok st ?items")
    case True
    then have "scan_ok ?st1 ?items" by simp
    then have "fst ?loop = Inr (slice_of ([] @ report_records s e ?items))"
      unfolding slice_of_def [of "[]", simplified, symmetric] by (rule report_loop_ok)
    with loop have r: "r = Inr (slice_of (report_records s e ?items))"
      by simp
    obtain b where "Marshal_Catches (slice_of (report_records s e ?items)) = Inr b"
      using Marshal_Catches_report by blast
    with assms False True loop r show ?thesis
      by (simp add: GenerateReport_def GetStateByRange_def report_spec_def payload_def)
  next
    case ok: False
    then have "\<not> scan_ok ?st1 ?items" by simp
    then have "isl (fst ?loop)" by (rule report_loop_fail)
    with loop obtain err where "r = Inl err"
      by (cases r) simp_all
    with assms False ok loop show ?thesis
      by (simp add: GenerateReport_def GetStateByRange_def report_spec_def payload_def)
  qed
qed

lemma GenerateReport_backup_payload:
  assumes "hasRole_backup ci ''authority''"
  shows "payload (fst (GenerateReport_backup ci s e st)) = report_spec s e st"
proof (cases "CGetStateByRange ''CATCH_'' ''CATCH_~'' \<in> set (faulty st)")
  case True
  with assms show ?thesis
    by (simp add: GenerateReport_backup_def GetStateByRange_def report_spec_def payload_def)
next
  case False
  let ?items = "range_items (world st) ''CATCH_'' ''CATCH_~''"
  let ?st1 = "record_call (CGetStateByRange ''CATCH_'' ''CATCH_~'') st"
  let ?loop = "report_loop [] [] s e ?items None ?st1"
  obtain r st2 where loop: "?loop = (r, st2)" by (cases ?loop)
  show ?thesis
  proof (cases "scan_ok st ?items")
    case True
    then have "scan_ok ?st1 ?items" by simp
    then have "fst ?loop = Inr (slice_of ([] @ report_records s e ?items))"
      unfolding slice_of_def [of "[]", simplified, symmetric] by (rule report_loop_ok)
    with loop have r: "r = Inr (slice_of (report_records s e ?items))"
      by simp
    obtain b where "Marshal_Catches (slice_of (report_records s e ?items)) = Inr b"
      using Marshal_Catches_report by blast
    with assms False True loop r show ?thesis
      by (simp add: GenerateReport_backup_def GetStateByRange_def report_spec_def payload_def)
  next
    case ok: False
    then have "\<not> scan_ok ?st1 ?items" by simp
    then have "isl (fst ?loop)" by (rule report_loop_fail)
    with loop obtain err where "r = Inl err"
      by (cases r) simp_all
    with assms False ok loop show ?thesis
      by (simp add: GenerateReport_backup_def GetStateByRange_def report_spec_def payload_def)
  qed
qed

lemma report_spec_succeeds:
  "CGetStateByRange ''CATCH_'' ''CATCH_~'' \<notin> set (faulty st) \<Longrightarrow>
     scan_ok st (range_items (world st) ''CATCH_'' ''CATCH_~'') \<Longrightarrow>
     \<exists>b. report_spec s e st = Some b
       \<and> (b = JNull \<longleftrightarrow> report_records s e (range_items (world st) ''CATCH_'' ''CATCH_~'') = [])"
  using Marshal_Catches_report [of s e "range_items (world st) ''CATCH_'' ''CATCH_~''"]
  by (auto simp add: report_spec_def)

lemma map_fst_range_items:
  "map fst (List.map_filter
       (\<lambda>k. if P k then map_option (Pair k) (m k) else None) ks) =
     filter (\<lambda>k. P k \<and> m k \<noteq> None) ks"
  by (induction ks) (auto split: option.splits)

lemma set_map_filter_Some:
  "set (List.map_filter f xs) = {y. \<exists>x \<in> set xs. f x = Some y}"
  by (induction xs) (auto split: option.splits)

lemma range_items_keys:
  "sorted (map fst (range_items w startKey endKey))"
  "distinct (map fst (range_items w startKey endKey))"
  by (simp_all add: range_items_def map_fst_range_items sorted_wrt_filter)

lemma range_items_set:
  "(k, v) \<in> set (range_items w startKey endKey) \<longleftrightarrow>
     map_of w k = Some v \<and> startKey \<le> k \<and> k < endKey"
proof -
  have "map_of w k = Some v \<Longrightarrow> k \<in> fst ` set w"
    by (metis map_of_eq_None_iff option.distinct(1))
  then show ?thesis
    by (auto simp add: range_items_def set_map_filter_Some split: if_splits)
qed

lemma float64_small: "\<bar>r\<bar> \<le> 1000000 \<Longrightarrow> \<not> float64_overflow r"
proof -
  have "(1000000 :: rat) < 2 ^ 1024 - 2 ^ 970" by simp
  then show "\<bar>r\<bar> \<le> 1000000 \<Longrightarrow> \<not> float64_overflow r"
    by (simp add: float64_overflow_def)
qed

lemma Unmarshal_catches:
  "Unmarshal_Catch catch1 =
     Inr \<lparr>CatchID = ''C001'', FisherID = ''F001'', Species = ''Tilapia'',
          WeightKg = Finite (21 / 2), Date = ''2025-08-09''\<rparr>"
  "Unmarshal_Catch catch2 =
     Inr \<lparr>CatchID = ''C002'', FisherID = ''F002'', Species = ''Nile Perch'',
          WeightKg = Finite 15, Date = ''2025-08-10''\<rparr>"
  by (simp_all add: catch1_def catch2_def Unmarshal_Catch_def Unmarshal_struct_def
      Catch_member_def fold_name_def lower_def as_string_def as_float_def float64_small)

lemma scan_ledger1:
  "range_items (world ledger1) ''CATCH_'' ''CATCH_~'' =
     [(''CATCH_C001'', catch1), (''CATCH_C002'', catch2)]"
  "range_items (world ledger1_failing) ''CATCH_'' ''CATCH_~'' =
     [(''CATCH_C001'', catch1), (''CATCH_C002'', catch2)]"
  by (simp_all add: ledger1_def ledger1_failing_def range_items_def)

lemma Marshal_catches:
  "Marshal_Catch \<lparr>CatchID = ''C001'', FisherID = ''F001'', Species = ''Tilapia'',
          WeightKg = Finite (21 / 2), Date = ''2025-08-09''\<rparr> = Inr catch1"
  "Marshal_Catch \<lparr>CatchID = ''C002'', FisherID = ''F002'', Species = ''Nile Perch'',
          WeightKg = Finite 15, Date = ''2025-08-10''\<rparr> = Inr catch2"
  by (simp_all add: Marshal_Catch_def json_float_def catch1_def catch2_def)

lemma faulty_ledger1:
  "faulty ledger1 = []" "faulty ledger1_failing = [CNext ''CATCH_C002'']"
  by (simp_all add: ledger1_def ledger1_failing_def)

lemma report_spec_ledger1:
  "report_spec ''2025-08-09'' ''2025-08-10'' ledger1 = Some (JArray [catch1, catch2])"
  "report_spec ''2025-08-10'' ''2025-08-31'' ledger1 = Some (JArray [catch2])"
  "report_spec ''2025-08-09'' ''2025-08-10'' ledger1_failing = None"
  by (simp_all add: report_spec_def scan_ledger1 scan_ok_def Unmarshal_catches faulty_ledger1
      report_records_def decoded_def in_period_def slice_of_def Marshal_Catches_def
      Marshal_catches)

lemma payload_Some: "payload r = Some b \<longleftrightarrow> r = Inr b"
  by (cases r) (simp_all add: payload_def)

lemma payload_None: "payload r = None \<longleftrightarrow> isl r"
  by (cases r) (simp_all add: payload_def)


lemma report_records_reversed: "endDate < startDate \<Longrightarrow> report_records startDate endDate items = []"
  by (auto simp add: report_records_def in_period_def filter_empty_conv)

text \<open>
  Claim C6. For a caller who passes the authority check, \<open>GenerateReport\<close> returns a
  payload exactly when the specification gives one, and then the same payload: the
  encoding of the decoded catch records of the scan whose date \<open>d\<close> satisfies
  \<open>startDate \<le> d \<le> endDate\<close> in the order of strings, in scan order. A payload is
  returned whenever the scan opens, every entry is delivered and every entry decodes; a
  failure of the scan or of a decoding makes the call return an error and no payload.
  The scan delivers the entries of the world state with \<open>CATCH_ \<le> key < CATCH_~\<close>, each
  once, in ascending key order. Both variants.
\<close>

theorem report_is_filtered_range_scan:
  "(hasRole ci ''authority'' \<longrightarrow>
      payload (fst (GenerateReport ci startDate endDate st)) = report_spec startDate endDate st)
   \<and> (hasRole_backup ci ''authority'' \<longrightarrow>
      payload (fst (GenerateReport_backup ci startDate endDate st)) =
        report_spec startDate endDate st)
   \<and> (CGetStateByRange ''CATCH_'' ''CATCH_~'' \<notin> set (faulty st)
        \<and> scan_ok st (range_items (world st) ''CATCH_'' ''CATCH_~'')
      \<longrightarrow> report_spec startDate endDate st \<noteq> None)
   \<and> sorted (map fst (range_items (world st) ''CATCH_'' ''CATCH_~''))
   \<and> distinct (map fst (range_items (world st) ''CATCH_'' ''CATCH_~''))
   \<and> ((k, v) \<in> set (range_items (world st) ''CATCH_'' ''CATCH_~'') \<longleftrightarrow>
        map_of (world st) k = Some v \<and> ''CATCH_'' \<le> k \<and> k < ''CATCH_~'')"
proof -
  have "report_spec startDate endDate st \<noteq> None"
    if "CGetStateByRange ''CATCH_'' ''CATCH_~'' \<notin> set (faulty st)"
      and "scan_ok st (range_items (world st) ''CATCH_'' ''CATCH_~'')"
    using report_spec_succeeds [OF that] by auto
  then show ?thesis
    by (simp add: GenerateReport_payload GenerateReport_backup_payload range_items_keys
        range_items_set)
qed

theorem report_is_filtered_range_scan_witness:
  "fst (GenerateReport authority ''2025-08-09'' ''2025-08-10'' ledger1) =
     Inr (JArray [catch1, catch2])
   \<and> fst (GenerateReport_backup authority ''2025-08-09'' ''2025-08-10'' ledger1) =
     Inr (JArray [catch1, catch2])
   \<and> fst (GenerateReport authority ''2025-08-10'' ''2025-08-31'' ledger1) = Inr (JArray [catch2])
   \<and> isl (fst (GenerateReport authority ''2025-08-09'' ''2025-08-10'' ledger1_failing))
   \<and> isl (fst (GenerateReport_backup authority ''2025-08-09'' ''2025-08-10'' ledger1_failing))"
  using report_is_filtered_range_scan [where ci = authority and st = ledger1
      and startDate = "''2025-08-09''" and endDate = "''2025-08-10''"]
    report_is_filtered_range_scan [where ci = authority and st = ledger1
      and startDate = "''2025-08-10''" and endDate = "''2025-08-31''"]
    report_is_filtered_range_scan [where ci = authority and st = ledger1_failing
      and startDate = "''2025-08-09''" and endDate = "''2025-08-10''"]
    authority_roles
  by (simp add: report_spec_ledger1 payload_Some payload_None)

text \<open>
  Claim C10. When \<open>GenerateReport\<close> is invoked by a caller who passes the authority check,
  the scan opens and every entry is delivered and decodes, and no decoded record has its
  date within the period (as is the case whenever the start date is greater than the end
  date), the call succeeds and returns the document \<^verbatim>\<open>null\<close>, the encoding of a nil
  slice, and not the empty array \<^verbatim>\<open>[]\<close>. Both variants.
\<close>

theorem empty_report_is_null:
  "(hasRole ci ''authority''
      \<and> CGetStateByRange ''CATCH_'' ''CATCH_~'' \<notin> set (faulty st)
      \<and> scan_ok st (range_items (world st) ''CATCH_'' ''CATCH_~'')
      \<and> (report_records startDate endDate (range_items (world st) ''CATCH_'' ''CATCH_~'') = []
           \<or> endDate < startDate)
    \<longrightarrow> fst (GenerateReport ci startDate endDate st) = Inr JNull
      \<and> fst (GenerateReport ci startDate endDate st) \<noteq> Inr (JArray []))
   \<and> (hasRole_backup ci ''authority''
      \<and> CGetStateByRange ''CATCH_'' ''CATCH_~'' \<notin> set (faulty st)
      \<and> scan_ok st (range_items (world st) ''CATCH_'' ''CATCH_~'')
      \<and> (report_records startDate endDate (range_items (world st) ''CATCH_'' ''CATCH_~'') = []
           \<or> endDate < startDate)
    \<longrightarrow> fst (GenerateReport_backup ci startDate endDate st) = Inr JNull
      \<and> fst (GenerateReport_backup ci startDate endDate st) \<noteq> Inr (JArray []))"
proof -
  let ?items = "range_items (world st) ''CATCH_'' ''CATCH_~''"
  have spec: "report_spec startDate endDate st = Some JNull"
    if "CGetStateByRange ''CATCH_'' ''CATCH_~'' \<notin> set (faulty st)" and "scan_ok st ?items"
      and "report_records startDate endDate ?items = [] \<or> endDate < startDate"
  proof -
    from that(3) have "report_records startDate endDate ?items = []"
      using report_records_reversed by blast
    with report_spec_succeeds [OF that(1,2), of startDate endDate] show ?thesis by auto
  qed
  have "fst (GenerateReport ci startDate endDate st) = Inr JNull"
    if "hasRole ci ''authority''"
      and "CGetStateByRange ''CATCH_'' ''CATCH_~'' \<notin> set (faulty st)" and "scan_ok st ?items"
      and "report_records startDate endDate ?items = [] \<or> endDate < startDate"
    using GenerateReport_payload [OF that(1), of startDate endDate st] spec [OF that(2,3,4)]
    by (simp add: payload_Some)
  moreover have "fst (GenerateReport_backup ci startDate endDate st) = Inr JNull"
    if "hasRole_backup ci ''authority''"
      and "CGetStateByRange ''CATCH_'' ''CATCH_~'' \<notin> set (faulty st)" and "scan_ok st ?items"
      and "report_records startDate endDate ?items = [] \<or> endDate < startDate"
    using GenerateReport_backup_payload [OF that(1), of startDate endDate st]
      spec [OF that(2,3,4)]
    by (simp add: payload_Some)
  ultimately show ?thesis by simp
qed

lemma scan_ok_ledger1: "scan_ok ledger1 (range_items (world ledger1) ''CATCH_'' ''CATCH_~'')"
  by (simp add: scan_ledger1 scan_ok_def faulty_ledger1 Unmarshal_catches)

lemma report_records_ledger1:
  "report_records ''2025-09-01'' ''2025-09-30'' (range_items (world ledger1) ''CATCH_'' ''CATCH_~'')
     = []"
  by (simp add: scan_ledger1 report_records_def decoded_def in_period_def Unmarshal_catches
     )

theorem empty_report_is_null_witness:
  "fst (GenerateReport authority ''2025-09-01'' ''2025-09-30'' ledger1) = Inr JNull
   \<and> fst (GenerateReport_backup authority ''2025-09-01'' ''2025-09-30'' ledger1) = Inr JNull
   \<and> fst (GenerateReport authority ''2025-08-10'' ''2025-08-09'' ledger1) = Inr JNull
   \<and> fst (GenerateReport_backup authority ''2025-08-10'' ''2025-08-09'' ledger1) = Inr JNull
   \<and> fst (GenerateReport authority ''2025-08-09'' ''2025-08-10'' ledger0) = Inr JNull"
  using empty_report_is_null [where ci = authority and st = ledger1
      and startDate = "''2025-09-01''" and endDate = "''2025-09-30''"]
    empty_report_is_null [where ci = authority and st = ledger1
      and startDate = "''2025-08-10''" and endDate = "''2025-08-09''"]
    empty_report_is_null [where ci = authority and st = ledger0
      and startDate = "''2025-08-09''" and endDate = "''2025-08-10''"]
    authority_roles scan_ok_ledger1 report_records_ledger1
  by (simp add: faulty_ledger1)
    (simp add: ledger0_def range_items_def scan_ok_def report_records_def decoded_def)

subsection \<open>Where the contract departs from its tests\<close>

lemma ParseFloat_samples:
  "ParseFloat ''-1.0'' = Inr (Finite (- 1))" "ParseFloat ''5.0'' = Inr (Finite 5)"
  by (simp_all add: ParseFloat_def special_def strip_sign_def lower_def readFloat_def
      read_exponent_def digit_of_def float64_small)

text \<open>
  Claim C1 fails on the code. Neither variant of \<open>LogCatch\<close> compares the parsed weight
  with zero: the call of the repository's test with the weight \<open>-1.0\<close>, which the test
  expects to fail with \<^verbatim>\<open>weight must be positive\<close>, returns \<^verbatim>\<open>nil\<close> and stores a catch whose
  weight is \<open>-1\<close>. The weight \<open>10.5\<close> is accepted and stored as the number \<open>10.5\<close>.
\<close>

theorem LogCatch_accepts_negative_weight:
  "fst (LogCatch fisher1 ''C002'' ''F001'' ''Tilapia'' ''-1.0'' ''2025-08-09'' ledger0) = None
   \<and> map_option Unmarshal_Catch
        (map_of (world (snd (LogCatch fisher1 ''C002'' ''F001'' ''Tilapia'' ''-1.0'' ''2025-08-09''
                               ledger0))) ''CATCH_C002'') =
      Some (Inr \<lparr>CatchID = ''C002'', FisherID = ''F001'', Species = ''Tilapia'',
                  WeightKg = Finite (- 1), Date = ''2025-08-09''\<rparr>)
   \<and> fst (LogCatch_backup fisher1 ''C002'' ''F001'' ''Tilapia'' ''-1.0'' ''2025-08-09'' ledger0) =
        None
   \<and> fst (GetCatch fisher1 ''C002''
            (snd (LogCatch_backup fisher1 ''C002'' ''F001'' ''Tilapia'' ''-1.0'' ''2025-08-09''
                    ledger0))) =
      Inr \<lparr>CatchID = ''C002'', FisherID = ''F001'', Species = ''Tilapia'',
            WeightKg = Finite (- 1), Date = ''2025-08-09''\<rparr>
   \<and> fst (LogCatch fisher1 ''C001'' ''F001'' ''Tilapia'' ''10.5'' ''2025-08-09'' ledger0) = None
   \<and> map_of (world (snd (LogCatch fisher1 ''C001'' ''F001'' ''Tilapia'' ''10.5'' ''2025-08-09''
                            ledger0))) ''CATCH_C001'' = Some catch1"
  by (simp add: LogCatch_def LogCatch_backup_def GetCatch_def ParseFloat_samples ParseFloat_10_5
      Marshal_Catch_def json_float_def put_result_def PutState_def GetState_def ledger0_def
      fisher1_def hasRole_backup_def GetAttributeValue_def catch1_def
      Unmarshal_Catch_def Unmarshal_struct_def Catch_member_def fold_name_def lower_def
      as_string_def as_float_def float64_small)

text \<open>
  Claim C2 fails on the code. No create operation reads the key before it writes: a
  second \<open>RegisterFisher\<close> with the identifier of an existing fisher, which the repository's
  test expects to fail, returns \<^verbatim>\<open>nil\<close> and replaces the stored record; and what each of
  the four create operations returns does not depend on what the ledger holds. Both
  variants.
\<close>

theorem duplicate_create_overwrites:
  "fst (RegisterFisher authority ''F001'' ''Jane Doe'' ''GOV456''
          (snd (RegisterFisher authority ''F001'' ''John Doe'' ''GOV123'' ledger0))) = None
   \<and> fst (GetFisher authority ''F001''
            (snd (RegisterFisher authority ''F001'' ''John Doe'' ''GOV123'' ledger0))) =
        Inr \<lparr>ID = ''F001'', Name = ''John Doe'', GovtID = ''GOV123'', Role = ''fisher''\<rparr>
   \<and> fst (GetFisher authority ''F001''
            (snd (RegisterFisher authority ''F001'' ''Jane Doe'' ''GOV456''
                    (snd (RegisterFisher authority ''F001'' ''John Doe'' ''GOV123'' ledger0))))) =
        Inr \<lparr>ID = ''F001'', Name = ''Jane Doe'', GovtID = ''GOV456'', Role = ''fisher''\<rparr>
   \<and> fst (RegisterFisher_backup authority ''F001'' ''Jane Doe'' ''GOV456''
            (snd (RegisterFisher_backup authority ''F001'' ''John Doe'' ''GOV123'' ledger0))) = None
   \<and> fst (GetFisher_backup authority ''F001''
            (snd (RegisterFisher_backup authority ''F001'' ''Jane Doe'' ''GOV456''
                    (snd (RegisterFisher_backup authority ''F001'' ''John Doe'' ''GOV123''
                            ledger0))))) =
        Inr \<lparr>ID = ''F001'', Name = ''Jane Doe'', GovtID = ''GOV456'', Role = ''fisher''\<rparr>
   \<and> fst (RegisterFisher ci i name govtId (st\<lparr>world := w, pvt := p\<rparr>)) =
        fst (RegisterFisher ci i name govtId st)
   \<and> fst (LogCatch ci i fisherId species weightKgStr date (st\<lparr>world := w, pvt := p\<rparr>)) =
        fst (LogCatch ci i fisherId species weightKgStr date st)
   \<and> fst (CreateBatch ci i catchIds processorId date (st\<lparr>world := w, pvt := p\<rparr>)) =
        fst (CreateBatch ci i catchIds processorId date st)
   \<and> fst (PlaceOrder ci i batchId buyerId date (st\<lparr>world := w, pvt := p\<rparr>)) =
        fst (PlaceOrder ci i batchId buyerId date st)
   \<and> fst (RegisterFisher_backup ci i name govtId (st\<lparr>world := w, pvt := p\<rparr>)) =
        fst (RegisterFisher_backup ci i name govtId st)
   \<and> fst (LogCatch_backup ci i fisherId species weightKgStr date (st\<lparr>world := w, pvt := p\<rparr>)) =
        fst (LogCatch_backup ci i fisherId species weightKgStr date st)
   \<and> fst (CreateBatch_backup ci i catchIds processorId date (st\<lparr>world := w, pvt := p\<rparr>)) =
        fst (CreateBatch_backup ci i catchIds processorId date st)
   \<and> fst (PlaceOrder_backup ci i batchId buyerId date (st\<lparr>world := w, pvt := p\<rparr>)) =
        fst (PlaceOrder_backup ci i batchId buyerId date st)"
proof -
  have current:
    "fst (RegisterFisher ci i name govtId (st\<lparr>world := w, pvt := p\<rparr>)) =
       fst (RegisterFisher ci i name govtId st)"
    "fst (LogCatch ci i fisherId species weightKgStr date (st\<lparr>world := w, pvt := p\<rparr>)) =
       fst (LogCatch ci i fisherId species weightKgStr date st)"
    "fst (CreateBatch ci i catchIds processorId date (st\<lparr>world := w, pvt := p\<rparr>)) =
       fst (CreateBatch ci i catchIds processorId date st)"
    "fst (PlaceOrder ci i batchId buyerId date (st\<lparr>world := w, pvt := p\<rparr>)) =
       fst (PlaceOrder ci i batchId buyerId date st)"
    by (simp_all add: RegisterFisher_def LogCatch_def CreateBatch_def PlaceOrder_def
        put_result_def PutPrivateData_def PutState_def Let_def split: sum.splits)
  have backup:
    "fst (RegisterFisher_backup ci i name govtId (st\<lparr>world := w, pvt := p\<rparr>)) =
       fst (RegisterFisher_backup ci i name govtId st)"
    "fst (LogCatch_backup ci i fisherId species weightKgStr date (st\<lparr>world := w, pvt := p\<rparr>)) =
       fst (LogCatch_backup ci i fisherId species weightKgStr date st)"
    "fst (CreateBatch_backup ci i catchIds processorId date (st\<lparr>world := w, pvt := p\<rparr>)) =
       fst (CreateBatch_backup ci i catchIds processorId date st)"
    "fst (PlaceOrder_backup ci i batchId buyerId date (st\<lparr>world := w, pvt := p\<rparr>)) =
       fst (PlaceOrder_backup ci i batchId buyerId date st)"
    by (simp_all add: RegisterFisher_backup_def LogCatch_backup_def CreateBatch_backup_def
        PlaceOrder_backup_def put_result_def PutState_def Let_def split: sum.splits)
  have sample:
    "fst (RegisterFisher authority ''F001'' ''Jane Doe'' ''GOV456''
            (snd (RegisterFisher authority ''F001'' ''John Doe'' ''GOV123'' ledger0))) = None"
    "fst (GetFisher authority ''F001''
            (snd (RegisterFisher authority ''F001'' ''John Doe'' ''GOV123'' ledger0))) =
       Inr \<lparr>ID = ''F001'', Name = ''John Doe'', GovtID = ''GOV123'', Role = ''fisher''\<rparr>"
    "fst (GetFisher authority ''F001''
            (snd (RegisterFisher authority ''F001'' ''Jane Doe'' ''GOV456''
                    (snd (RegisterFisher authority ''F001'' ''John Doe'' ''GOV123'' ledger0))))) =
       Inr \<lparr>ID = ''F001'', Name = ''Jane Doe'', GovtID = ''GOV456'', Role = ''fisher''\<rparr>"
    "fst (RegisterFisher_backup authority ''F001'' ''Jane Doe'' ''GOV456''
            (snd (RegisterFisher_backup authority ''F001'' ''John Doe'' ''GOV123'' ledger0))) = None"
    "fst (GetFisher_backup authority ''F001''
            (snd (RegisterFisher_backup authority ''F001'' ''Jane Doe'' ''GOV456''
                    (snd (RegisterFisher_backup authority ''F001'' ''John Doe'' ''GOV123''
                            ledger0))))) =
       Inr \<lparr>ID = ''F001'', Name = ''Jane Doe'', GovtID = ''GOV456'', Role = ''fisher''\<rparr>"
    by (simp_all add: RegisterFisher_def RegisterFisher_backup_def GetFisher_def
        GetFisher_backup_def authority_roles Marshal_Fisher_def put_result_def PutPrivateData_def
        GetPrivateData_def PutState_def GetState_def ledger0_def Unmarshal_Fisher_def
        Unmarshal_struct_def Fisher_member_def fold_name_tags as_string_def)
  from sample current backup show ?thesis by simp
qed

text \<open>
  Claim C3 fails on the code. In the current chaincode the check of \<open>LogCatch\<close> is
  commented out, so a caller who has not the role \<open>fisher\<close> and is not the named fisher
  (\<open>outsider_roles\<close> above) logs a catch for \<open>F001\<close>, and the result of the function is the
  same for every caller; the repository's test expects
  \<^verbatim>\<open>only the fisher can log their catch\<close>. In the backup variant the check denies only a
  caller who fails both the role and the identity comparison, so the caller \<open>F001\<close> with
  the role \<open>processor\<close> logs a catch, which the test expects to be denied as well.
\<close>

theorem LogCatch_without_authorization:
  "attributes outsider = Some [(''role'', ''auditor'')] \<and> callerID outsider = Some ''F002''
   \<and> fst (LogCatch outsider ''C003'' ''F001'' ''Tilapia'' ''5.0'' ''2025-08-09'' ledger0) = None
   \<and> map_of (world (snd (LogCatch outsider ''C003'' ''F001'' ''Tilapia'' ''5.0'' ''2025-08-09''
                            ledger0))) ''CATCH_C003'' \<noteq> None
   \<and> attributes processor1 = Some [(''role'', ''processor'')]
   \<and> fst (LogCatch_backup processor1 ''C004'' ''F001'' ''Tilapia'' ''5.0'' ''2025-08-09'' ledger0) =
        None
   \<and> map_of (world (snd (LogCatch_backup processor1 ''C004'' ''F001'' ''Tilapia'' ''5.0''
                            ''2025-08-09'' ledger0))) ''CATCH_C004'' \<noteq> None
   \<and> LogCatch ci catchId fisherId species weightKgStr date st =
        LogCatch ci' catchId fisherId species weightKgStr date st"
  by (simp add: LogCatch_def LogCatch_backup_def ParseFloat_samples outsider_def
      Marshal_Catch_def json_float_def put_result_def PutState_def ledger0_def
      processor1_def hasRole_backup_def isCaller_backup_def GetAttributeValue_def GetID_def)

end
